theory Spec2Isabelle
  imports Main "HOL-Library.Sublist"
begin

section \<open>Go's package time, as far as \<open>service/http.go\<close> uses it\<close>

text \<open>
  A \<open>time.Time\<close> is an instant; the model counts nanoseconds from the Unix epoch
  as an unbounded integer. (Go keeps 64-bit seconds and 32-bit nanoseconds, a range far
  beyond every instant that a 64-bit duration can reach from a decoded timestamp, so
  \<open>Time.Add\<close> never saturates on the values met here.)
  A \<open>time.Duration\<close> is an \<open>int64\<close> count of nanoseconds: conversion and
  multiplication wrap around, and \<open>Time.Sub\<close> saturates at the smallest and largest
  duration, as the Go library documents.
\<close>

type_synonym Time = int
type_synonym Duration = int

definition minDuration :: Duration where
  "minDuration = - (2 ^ 63)"

definition maxDuration :: Duration where
  "maxDuration = 2 ^ 63 - 1"

definition int64 :: "int \<Rightarrow> int" where
  "int64 x = (x + 2 ^ 63) mod 2 ^ 64 - 2 ^ 63"

definition Duration_mul :: "Duration \<Rightarrow> Duration \<Rightarrow> Duration" where
  "Duration_mul x y = int64 (x * y)"

definition Microsecond :: Duration where
  "Microsecond = 1000"

definition Second :: Duration where
  "Second = 1000000000"

definition Minute :: Duration where
  "Minute = Duration_mul 60 Second"

definition Add :: "Time \<Rightarrow> Duration \<Rightarrow> Time" where
  "Add t x = t + x"

definition Sub :: "Time \<Rightarrow> Time \<Rightarrow> Duration" where
  "Sub t u =
     (if t - u < minDuration then minDuration
      else if maxDuration < t - u then maxDuration
      else t - u)"

section \<open>Kerberos data read by the validation\<close>

text \<open>
  The structures of the packages \<open>types\<close> and \<open>messages\<close>, with the fields that
  \<open>service/http.go\<close> reads. The client name of the decrypted ticket part is the field
  \<open>CName\<close> of \<open>EncTicketPart\<close> in the source; here it is \<open>tkt_CName\<close>, since the
  authenticator has a field of the same name. Instants are \<open>time.Time\<close> values. The
  microsecond offset \<open>Cusec\<close> is a Go \<open>int\<close>, of 64 bits; the ticket flags are a string
  of bits.
\<close>

record PrincipalName =
  NameType :: int
  NameString :: "string list"

type_synonym bytes = string
type_synonym EncryptedData = bytes
type_synonym EncryptionKey = bytes
type_synonym Flags = "bool list"

record Authenticator =
  CRealm :: string
  CName :: PrincipalName
  CTime :: Time
  Cusec :: int

record EncTicketPart =
  Flags :: Flags
  Key :: EncryptionKey
  tkt_CName :: PrincipalName
  StartTime :: Time
  EndTime :: Time

record Ticket =
  Realm :: string
  SName :: PrincipalName
  EncPart :: EncryptedData
  DecryptedEncPart :: EncTicketPart

record APReq =
  Ticket :: Ticket
  Authenticator :: EncryptedData

text \<open>The error codes of package \<open>errorcode\<close> that the validation names.\<close>

datatype errorcode =
    KRB_AP_ERR_BADMATCH
  | KRB_AP_ERR_SKEW
  | KRB_AP_ERR_REPEAT
  | KRB_AP_ERR_TKT_NYV
  | KRB_AP_ERR_TKT_EXPIRED

text \<open>
  \<open>messages.NewKRBError(sname, realm, code, etext)\<close> builds the error value; the
  model keeps its four arguments.
\<close>

datatype KRBError = NewKRBError PrincipalName string errorcode string

fun ErrorCode :: "KRBError \<Rightarrow> errorcode" where
  "ErrorCode (NewKRBError sname realm code etext) = code"

section \<open>The collaborators of other packages\<close>

text \<open>
  \<open>validateAPREQ\<close> calls functions whose code is in other packages: the comparison of
  principal names, the test of a ticket flag, and the replay cache (\<open>GetReplayCache\<close>,
  \<open>IsReplay\<close>). They are parameters of the model. The replay cache is process-wide
  state of type \<open>'rc\<close>, passed in and returned: \<open>GetReplayCache\<close> yields the state in
  which the singleton exists, \<open>IsReplay\<close> answers and may record.
\<close>

record 'rc validation_env =
  Equal :: "PrincipalName \<Rightarrow> PrincipalName \<Rightarrow> bool"
  IsFlagSet :: "Flags \<Rightarrow> nat \<Rightarrow> bool"
  Invalid :: nat
  GetReplayCache :: "Duration \<Rightarrow> 'rc \<Rightarrow> 'rc"
  IsReplay :: "Duration \<Rightarrow> PrincipalName \<Rightarrow> Authenticator \<Rightarrow> 'rc \<Rightarrow> bool \<times> 'rc"

section \<open>validateAPREQ\<close>

text \<open>
  The function of lines 91 to 133. \<open>now\<close> is the value of the one call
  \<open>time.Now().UTC()\<close> (line 106); \<open>rc\<close> is the state of the replay cache before the
  call, and the second component of the result its state afterwards. The last line of the
  source, \<open>return true\<close>, is read as \<open>return true, nil\<close>. The text of the skew error
  formats \<open>d\<close> with \<open>%v\<close>, which prints five minutes as \<open>5m0s\<close>.
\<close>

definition validateAPREQ ::
  "('rc, 'x) validation_env_scheme \<Rightarrow> Time \<Rightarrow> Authenticator \<Rightarrow> APReq \<Rightarrow> 'rc
     \<Rightarrow> (bool \<times> KRBError option) \<times> 'rc" where
  "validateAPREQ env now a APReq rc =
     (if \<not> Equal env (CName a) (tkt_CName (DecryptedEncPart (Ticket APReq))) then
        ((False, Some (NewKRBError (SName (Ticket APReq)) (Realm (Ticket APReq))
            KRB_AP_ERR_BADMATCH ''CName in Authenticator does not match that in service ticket'')), rc)
      else
        let ct = Add (CTime a) (Duration_mul (int64 (Cusec a)) Microsecond);
            t = now;
            d = Duration_mul (int64 5) Minute
        in
        if Sub t ct > d \<or> Sub ct t > d then
          ((False, Some (NewKRBError (SName (Ticket APReq)) (Realm (Ticket APReq))
              KRB_AP_ERR_SKEW ''Clock skew with client too large. Greater than 5m0s seconds'')), rc)
        else
          let chk = IsReplay env d (SName (Ticket APReq)) a (GetReplayCache env d rc) in
          if fst chk then
            ((False, Some (NewKRBError (SName (Ticket APReq)) (Realm (Ticket APReq))
                KRB_AP_ERR_REPEAT ''Replay detected'')), snd chk)
          else if Sub (StartTime (DecryptedEncPart (Ticket APReq))) t > d
                  \<or> IsFlagSet env (Flags (DecryptedEncPart (Ticket APReq))) (Invalid env) then
            ((False, Some (NewKRBError (SName (Ticket APReq)) (Realm (Ticket APReq))
                KRB_AP_ERR_TKT_NYV ''Service ticket provided is not yet valid'')), snd chk)
          else if Sub t (EndTime (DecryptedEncPart (Ticket APReq))) > d then
            ((False, Some (NewKRBError (SName (Ticket APReq)) (Realm (Ticket APReq))
                KRB_AP_ERR_TKT_EXPIRED ''Service ticket provided has expired'')), snd chk)
          else ((True, None), snd chk))"

section \<open>The replay cache\<close>

text \<open>
  Modelled from the spec: the replay cache (\<open>GetReplayCache\<close> and \<open>IsReplay\<close> are
  called in \<open>service/http.go\<close>, their code is not among the sources). The authenticator
  fingerprint is the composite of client principal name, client realm, service principal
  name and authenticator timestamp to microsecond resolution (section 3 of the spec).
\<close>

record Fingerprint =
  fp_CName :: PrincipalName
  fp_CRealm :: string
  fp_SName :: PrincipalName
  fp_CTime :: Time
  fp_Cusec :: int

text \<open>
  Modelled from the spec: a cache entry is a fingerprint with its insertion time; the
  cache is the collection of its entries, here in insertion order.
\<close>

record CacheEntry =
  fingerprint :: Fingerprint
  insertion :: Time

type_synonym ReplayCache = "CacheEntry list"

text \<open>
  Modelled from the spec: the fingerprint derived from a validation context, from the
  service principal name of the ticket and the authenticator.
\<close>

definition fingerprintOf :: "PrincipalName \<Rightarrow> Authenticator \<Rightarrow> Fingerprint" where
  "fingerprintOf sname a =
     \<lparr>fp_CName = CName a, fp_CRealm = CRealm a, fp_SName = sname,
      fp_CTime = CTime a, fp_Cusec = Cusec a\<rparr>"

text \<open>
  Modelled from the spec: eviction (section 4.1). Entries whose insertion time is older
  than \<open>now - window\<close> are evicted; an entry still inside the window is never removed.
\<close>

definition evict :: "Time \<Rightarrow> Duration \<Rightarrow> ReplayCache \<Rightarrow> ReplayCache" where
  "evict tnow window rc = filter (\<lambda>e. \<not> insertion e < tnow - window) rc"

text \<open>
  Modelled from the spec: \<open>CheckAndRecord(window, fingerprint)\<close> of section 4.1, one
  atomic step. \<open>tnow\<close> is the clock as the cache reads it during the call. The sweep of
  old entries comes first; then the answer is \<open>True\<close> when the fingerprint is present
  (nothing is inserted), and otherwise the fingerprint is inserted with insertion time
  \<open>tnow\<close> and the answer is \<open>False\<close>.
\<close>

definition CheckAndRecord ::
  "Time \<Rightarrow> Duration \<Rightarrow> Fingerprint \<Rightarrow> ReplayCache \<Rightarrow> bool \<times> ReplayCache" where
  "CheckAndRecord tnow window fp rc =
     (let live = evict tnow window rc in
      if list_ex (\<lambda>e. fingerprint e = fp) live then (True, live)
      else (False, live @ [\<lparr>fingerprint = fp, insertion = tnow\<rparr>]))"

text \<open>
  Modelled from the spec: the environment of a validation call whose replay cache is the
  cache of section 4.1, reading the clock value \<open>tnow\<close> during the call. The cache is
  created once at service start, so \<open>GetReplayCache\<close> hands out the state it is given.
\<close>

definition withSpecCache ::
  "Time \<Rightarrow> ('a, 'x) validation_env_scheme \<Rightarrow> (ReplayCache, 'x) validation_env_scheme" where
  "withSpecCache tnow env =
     \<lparr>Equal = Equal env, IsFlagSet = IsFlagSet env, Invalid = Invalid env,
      GetReplayCache = (\<lambda>d rc. rc),
      IsReplay = (\<lambda>d sname a rc. CheckAndRecord tnow d (fingerprintOf sname a) rc),
      \<dots> = validation_env.more env\<rparr>"

text \<open>
  Modelled from the spec: what happens to the cache between two presentations, a sequence
  of background sweeps and of further calls of \<open>CheckAndRecord\<close>, each at the clock value
  it reads, all with the window \<open>d\<close>.
\<close>

datatype cacheOp = Sweep Time | Presented Time Fingerprint

text \<open>Modelled from the spec: the clock value of such a step.\<close>

fun opTime :: "cacheOp \<Rightarrow> Time" where
  "opTime (Sweep t) = t"
| "opTime (Presented t fp) = t"

text \<open>Modelled from the spec: the cache after a sequence of such steps.\<close>

fun cacheAfter :: "Duration \<Rightarrow> cacheOp list \<Rightarrow> ReplayCache \<Rightarrow> ReplayCache" where
  "cacheAfter d [] rc = rc"
| "cacheAfter d (Sweep t # ops) rc = cacheAfter d ops (evict t d rc)"
| "cacheAfter d (Presented t fp # ops) rc = cacheAfter d ops (snd (CheckAndRecord t d fp rc))"

section \<open>The checks of the validation, as conditions on its input\<close>

text \<open>
  The five conditions that \<open>validateAPREQ\<close> tests, written with exact integer
  arithmetic on the instants. The maximum skew is five minutes, 300000000000 nanoseconds.
  The authenticator time is the timestamp plus the microsecond offset as a 64-bit count of
  nanoseconds.
\<close>

definition maxSkew :: Duration where
  "maxSkew = 5 * 60 * 1000000000"

definition authenticatorTime :: "Authenticator \<Rightarrow> Time" where
  "authenticatorTime a = CTime a + int64 (Cusec a * 1000)"

definition principalMismatch ::
  "('rc, 'x) validation_env_scheme \<Rightarrow> Authenticator \<Rightarrow> APReq \<Rightarrow> bool" where
  "principalMismatch env a APReq =
     (\<not> Equal env (CName a) (tkt_CName (DecryptedEncPart (Ticket APReq))))"

definition clockSkewExceeded :: "Time \<Rightarrow> Authenticator \<Rightarrow> bool" where
  "clockSkewExceeded now a = (\<bar>now - authenticatorTime a\<bar> > maxSkew)"

definition replayDetected ::
  "('rc, 'x) validation_env_scheme \<Rightarrow> Authenticator \<Rightarrow> APReq \<Rightarrow> 'rc \<Rightarrow> bool" where
  "replayDetected env a APReq rc =
     fst (IsReplay env maxSkew (SName (Ticket APReq)) a (GetReplayCache env maxSkew rc))"

definition notYetValid :: "('rc, 'x) validation_env_scheme \<Rightarrow> Time \<Rightarrow> APReq \<Rightarrow> bool" where
  "notYetValid env now APReq =
     (StartTime (DecryptedEncPart (Ticket APReq)) - now > maxSkew
      \<or> IsFlagSet env (Flags (DecryptedEncPart (Ticket APReq))) (Invalid env))"

definition ticketExpired :: "Time \<Rightarrow> APReq \<Rightarrow> bool" where
  "ticketExpired now APReq = (now - EndTime (DecryptedEncPart (Ticket APReq)) > maxSkew)"

text \<open>The outcome of a validation: rejected with an error code, or accepted.\<close>

definition rejectedWith :: "errorcode \<Rightarrow> bool \<times> KRBError option \<Rightarrow> bool" where
  "rejectedWith code res = (\<not> fst res \<and> map_option ErrorCode (snd res) = Some code)"

definition accepted :: "bool \<times> KRBError option \<Rightarrow> bool" where
  "accepted res = (res = (True, None))"

section \<open>Strings and HTTP values\<close>

text \<open>
  \<open>strings.SplitN(s, sep, n)\<close> for a non-empty separator and \<open>n \<ge> 0\<close>: the
  substrings between the first \<open>n - 1\<close> occurrences of the separator, the last one being
  the unsplit rest. \<open>Cut\<close> finds the first occurrence of the separator.
\<close>

fun Cut :: "string \<Rightarrow> string \<Rightarrow> (string \<times> string) option" where
  "Cut [] sep = (if sep = [] then Some ([], []) else None)"
| "Cut (c # cs) sep =
     (if prefix sep (c # cs) then Some ([], drop (length sep) (c # cs))
      else map_option (\<lambda>(before, after). (c # before, after)) (Cut cs sep))"

fun SplitN :: "string \<Rightarrow> string \<Rightarrow> nat \<Rightarrow> string list" where
  "SplitN s sep 0 = []"
| "SplitN s sep (Suc 0) = [s]"
| "SplitN s sep (Suc (Suc n)) =
     (case Cut s sep of
        None \<Rightarrow> [s]
      | Some (before, after) \<Rightarrow> before # SplitN after sep (Suc n))"

text \<open>
  An \<open>http.Header\<close> maps a header name to its values. \<open>Get\<close> returns the first value
  of the name, or the empty string; \<open>Set\<close> replaces the values of the name by one value.
  Header names are case-insensitive and net/http brings them to one canonical spelling in
  both functions, so a name stands for all its spellings.
\<close>

type_synonym Header = "string \<Rightarrow> string list option"

definition Get :: "Header \<Rightarrow> string \<Rightarrow> string" where
  "Get h key = (case h key of None \<Rightarrow> [] | Some [] \<Rightarrow> [] | Some (v # vs) \<Rightarrow> v)"

definition Set_value :: "Header \<Rightarrow> string \<Rightarrow> string \<Rightarrow> Header" where
  "Set_value h key v = h(key \<mapsto> [v])"

text \<open>
  The values of a \<open>context.Context\<close>: \<open>WithValue\<close> puts a pair in front, \<open>Value\<close>
  finds the pair put last for a key.
\<close>

datatype any = StringValue string | BoolValue bool

type_synonym Context = "(string \<times> any) list"

definition WithValue :: "Context \<Rightarrow> string \<Rightarrow> any \<Rightarrow> Context" where
  "WithValue ctx key v = (key, v) # ctx"

definition Value :: "Context \<Rightarrow> string \<Rightarrow> any option" where
  "Value ctx key = map_of ctx key"

record Request =
  Header :: Header
  RemoteAddr :: string
  Context_of :: Context

definition WithContext :: "Request \<Rightarrow> Context \<Rightarrow> Request" where
  "WithContext r ctx = r\<lparr>Context_of := ctx\<rparr>"

text \<open>
  An \<open>http.ResponseWriter\<close>: the header map that \<open>w.Header()\<close> returns, the status
  code once it has been written, and the bytes of the body. As in net/http, the first
  \<open>WriteHeader\<close> fixes the status code, and a \<open>Write\<close> before any \<open>WriteHeader\<close>
  writes status 200 first.
\<close>

record ResponseWriter =
  w_Header :: Header
  w_Status :: "nat option"
  w_Body :: bytes

definition Header_Set :: "ResponseWriter \<Rightarrow> string \<Rightarrow> string \<Rightarrow> ResponseWriter" where
  "Header_Set w key v = w\<lparr>w_Header := Set_value (w_Header w) key v\<rparr>"

definition WriteHeader :: "ResponseWriter \<Rightarrow> nat \<Rightarrow> ResponseWriter" where
  "WriteHeader w code = (case w_Status w of None \<Rightarrow> w\<lparr>w_Status := Some code\<rparr> | Some c \<Rightarrow> w)"

definition Write :: "ResponseWriter \<Rightarrow> bytes \<Rightarrow> ResponseWriter" where
  "Write w b = (let w' = WriteHeader w 200 in w'\<lparr>w_Body := w_Body w' @ b\<rparr>)"

definition fresh :: "ResponseWriter \<Rightarrow> bool" where
  "fresh w = (w_Status w = None \<and> w_Body w = [])"

type_synonym HandlerFunc = "ResponseWriter \<Rightarrow> Request \<Rightarrow> ResponseWriter"

text \<open>A \<open>*log.Logger\<close> is \<open>None\<close> for nil, or the lines printed so far.\<close>

type_synonym Logger = "string list"

definition Println :: "Logger \<Rightarrow> string \<Rightarrow> Logger" where
  "Println lg msg = lg @ [msg]"

section \<open>SPNEGO tokens and the collaborators of the handler\<close>

type_synonym OID = "int list"
type_synonym Keytab = "bytes list"
type_synonym error = string

record NegTokenInit =
  MechTypes :: "OID list"
  MechToken :: bytes

text \<open>
  The second result of \<open>GSSAPI.UnmarshalNegToken\<close> is an \<open>interface{}\<close>: a
  \<open>NegTokenInit\<close>, a \<open>NegTokenResp\<close> or nil.
\<close>

datatype NegToken = NegTokenInit_value NegTokenInit | NegTokenResp_value bytes | nil_value

record MechToken =
  TokID :: bytes
  mt_APReq :: APReq

text \<open>
  The decoding and decryption steps are code of other packages and parameters of the
  model. A Go function that returns a value and an error is a function into a sum, the
  error on the left; an error is the text that \<open>%v\<close> prints for it.
  \<open>UnmarshalNegToken\<close> keeps its three results. \<open>DecryptEncPart\<close> is the method of
  the ticket, which fills the field \<open>DecryptedEncPart\<close>; it returns the ticket so
  filled. \<open>KRBError_Error\<close> is the text of a \<open>KRBError\<close>.
\<close>

record 'rc handler_env = "'rc validation_env" +
  base64_DecodeString :: "string \<Rightarrow> error + bytes"
  UnmarshalNegToken :: "bytes \<Rightarrow> bool \<times> NegToken \<times> error option"
  MechTypeOID_Krb5 :: OID
  MechToken_Unmarshal :: "bytes \<Rightarrow> error + MechToken"
  IsAPReq :: "MechToken \<Rightarrow> bool"
  DecryptEncPart :: "Keytab \<Rightarrow> Ticket \<Rightarrow> error + Ticket"
  crypto_DecryptEncPart :: "EncryptedData \<Rightarrow> EncryptionKey \<Rightarrow> nat \<Rightarrow> error + bytes"
  AP_REQ_AUTHENTICATOR :: nat
  Authenticator_Unmarshal :: "bytes \<Rightarrow> error + Authenticator"
  GetPrincipalNameString :: "PrincipalName \<Rightarrow> string"
  KRBError_Error :: "KRBError \<Rightarrow> string"

text \<open>\<open>asn1.ObjectIdentifier.Equal\<close>: the same length and the same components.\<close>

definition OID_Equal :: "OID \<Rightarrow> OID \<Rightarrow> bool" where
  "OID_Equal x y = (x = y)"

text \<open>What \<open>%v\<close> prints for an error that may be nil.\<close>

definition fmt_error :: "error option \<Rightarrow> string" where
  "fmt_error err = (case err of None \<Rightarrow> ''<nil>'' | Some e \<Rightarrow> e)"

section \<open>The handler\<close>

definition SPNEGO_NegTokenResp_Krb_Accept_Completed :: string where
  "SPNEGO_NegTokenResp_Krb_Accept_Completed = ''Negotiate oRQwEqADCgEAoQsGCSqGSIb3EgECAg==''"

definition SPNEGO_NegTokenResp_Reject :: string where
  "SPNEGO_NegTokenResp_Reject = ''Negotiate oQcwBaADCgEC''"

text \<open>
  What one run of the handler leaves behind: the response writer, the logger, the calls
  of the downstream handler \<open>f\<close> with their arguments, and the replay cache. A run that
  panics leaves no outcome.
\<close>

record 'rc outcome =
  response :: ResponseWriter
  logger :: "Logger option"
  forwarded :: "(ResponseWriter \<times> Request) list"
  replayCache :: 'rc

datatype panic = IndexOutOfRange | TypeAssertionFailed

text \<open>\<open>rejectSPNEGO\<close>, lines 135 to 142: the writer and the logger after the call.\<close>

definition rejectSPNEGO ::
  "ResponseWriter \<Rightarrow> Logger option \<Rightarrow> string \<Rightarrow> ResponseWriter \<times> Logger option" where
  "rejectSPNEGO w l logMsg =
     (Write (WriteHeader (Header_Set w ''WWW-Authenticate'' SPNEGO_NegTokenResp_Reject) 401)
        ''Unauthorised.\<newline>'',
      (case l of None \<Rightarrow> None | Some lg \<Rightarrow> Some (Println lg logMsg)))"

text \<open>A return of the handler right after \<open>rejectSPNEGO\<close>, the cache being \<open>rc\<close>.\<close>

definition returned ::
  "'rc \<Rightarrow> ResponseWriter \<times> Logger option \<Rightarrow> panic + 'rc outcome" where
  "returned rc wl = Inr \<lparr>response = fst wl, logger = snd wl, forwarded = [], replayCache = rc\<rparr>"

text \<open>
  The function that \<open>SPNEGOKRB5Authenticate(f, ktab, l)\<close> returns, lines 28 to 88,
  applied to the writer \<open>w\<close> and the request \<open>r\<close>, with \<open>now\<close> and \<open>rc\<close> as in
  \<open>validateAPREQ\<close>. The type assertion of line 46 and the index of line 47 panic where
  Go panics.
\<close>

definition SPNEGOKRB5Authenticate ::
  "('rc, 'x) handler_env_scheme \<Rightarrow> HandlerFunc \<Rightarrow> Keytab \<Rightarrow> Logger option
     \<Rightarrow> Time \<Rightarrow> 'rc \<Rightarrow> ResponseWriter \<Rightarrow> Request \<Rightarrow> panic + 'rc outcome" where
  "SPNEGOKRB5Authenticate env f ktab l now rc w r =
     (let s = SplitN (Get (Header r) ''Authorization'') '' '' 2 in
      if length s \<noteq> 2 \<or> s ! 0 \<noteq> ''Negotiate'' then
        Inr \<lparr>response = Write (WriteHeader (Header_Set w ''WWW-Authenticate'' ''Negotiate'') 401)
                ''Unauthorised.\<newline>'',
             logger = l, forwarded = [], replayCache = rc\<rparr>
      else
      case base64_DecodeString env (s ! 1) of
        Inl err \<Rightarrow>
          returned rc (rejectSPNEGO w l
            (RemoteAddr r @ '' - SPNEGO error in base64 decoding negotiation header: '' @ err))
      | Inr b \<Rightarrow>
      (case UnmarshalNegToken env b of (isInit, nt, err) \<Rightarrow>
      if err \<noteq> None \<or> \<not> isInit then
        returned rc (rejectSPNEGO w l
          (RemoteAddr r @ '' - SPNEGO negotiation token is not a NegTokenInit: '' @ fmt_error err))
      else
      (case nt of
        NegTokenResp_value x \<Rightarrow> Inl TypeAssertionFailed
      | nil_value \<Rightarrow> Inl TypeAssertionFailed
      | NegTokenInit_value nInit \<Rightarrow>
      (case MechTypes nInit of
        [] \<Rightarrow> Inl IndexOutOfRange
      | m0 # ms \<Rightarrow>
      if \<not> OID_Equal m0 (MechTypeOID_Krb5 env) then
        returned rc (rejectSPNEGO w l
          (RemoteAddr r @ '' - SPNEGO OID of MechToken is not of type KRB5''))
      else
      (case MechToken_Unmarshal env (MechToken nInit) of
        Inl err \<Rightarrow>
          returned rc (rejectSPNEGO w l
            (RemoteAddr r @ '' - SPNEGO error unmarshaling MechToken: '' @ err))
      | Inr mt \<Rightarrow>
      if \<not> IsAPReq env mt then
        returned rc (rejectSPNEGO w l
          (RemoteAddr r @ '' - MechToken does not contain an AP_REQ - KRB_AP_ERR_MSG_TYPE''))
      else
      (case DecryptEncPart env ktab (Ticket (mt_APReq mt)) of
        Inl err \<Rightarrow>
          returned rc (rejectSPNEGO w l
            (RemoteAddr r @ '' - SPNEGO error decrypting the service ticket provided: '' @ err))
      | Inr tkt \<Rightarrow>
      (let APReq = (mt_APReq mt)\<lparr>Ticket := tkt\<rparr> in
      case crypto_DecryptEncPart env (Authenticator APReq) (Key (DecryptedEncPart (Ticket APReq)))
             (AP_REQ_AUTHENTICATOR env) of
        Inl err \<Rightarrow>
          returned rc (rejectSPNEGO w l
            (RemoteAddr r @ '' - SPNEGO error decrypting the authenticator provided: '' @ err))
      | Inr ab \<Rightarrow>
      (case Authenticator_Unmarshal env ab of
        Inl err \<Rightarrow>
          returned rc (rejectSPNEGO w l
            (RemoteAddr r @ '' - SPNEGO error unmarshalling the authenticator: '' @ err))
      | Inr a \<Rightarrow>
      (case validateAPREQ env now a APReq rc of ((ok, err), rc') \<Rightarrow>
      if ok then
        let ctx = Context_of r;
            ctx = WithValue ctx ''cname'' (StringValue (GetPrincipalNameString env (CName a)));
            ctx = WithValue ctx ''crealm'' (StringValue (CRealm a));
            ctx = WithValue ctx ''authenticated'' (BoolValue True);
            w' = Header_Set w ''WWW-Authenticate'' SPNEGO_NegTokenResp_Krb_Accept_Completed
        in Inr \<lparr>response = f w' (WithContext r ctx), logger = l,
                 forwarded = [(w', WithContext r ctx)], replayCache = rc'\<rparr>
      else
        returned rc' (rejectSPNEGO w l
          (RemoteAddr r @ '' - SPNEGO Kerberos authentication failed: ''
             @ fmt_error (map_option (KRBError_Error env) err))))))))))))"

section \<open>Sample values\<close>

text \<open>
  Concrete principals, a ticket, an authenticator and a set of collaborators, on which
  the theorems below are evaluated. The sample collaborators compare principal names
  by equality, read the ticket flags as a list of bits with the invalid flag at bit 7,
  and use the replay cache of the spec, which reads the clock value \<open>tnow\<close>. The
  decoding steps recognise a few fixed inputs.
\<close>

definition alice :: PrincipalName where
  "alice = \<lparr>NameType = 1, NameString = [''alice'']\<rparr>"

definition mallory :: PrincipalName where
  "mallory = \<lparr>NameType = 1, NameString = [''mallory'']\<rparr>"

definition httpService :: PrincipalName where
  "httpService = \<lparr>NameType = 3, NameString = [''HTTP'', ''www.example.org'']\<rparr>"

definition sampleNow :: Time where
  "sampleNow = 1700000001000000000"

definition sampleAuthenticator :: Authenticator where
  "sampleAuthenticator =
     \<lparr>CRealm = ''EXAMPLE.ORG'', CName = alice, CTime = 1700000000000000000, Cusec = 250000\<rparr>"

definition sampleTicketPart :: EncTicketPart where
  "sampleTicketPart =
     \<lparr>Flags = [False, False, False, False, False, False, False, False],
      Key = ''session key'', tkt_CName = alice,
      StartTime = 1699996400000000000, EndTime = 1700032400000000000\<rparr>"

definition sampleTicket :: Ticket where
  "sampleTicket =
     \<lparr>Realm = ''EXAMPLE.ORG'', SName = httpService, EncPart = ''encrypted ticket part'',
      DecryptedEncPart = sampleTicketPart\<rparr>"

definition sampleAPReq :: APReq where
  "sampleAPReq = \<lparr>Ticket = sampleTicket, Authenticator = ''encrypted authenticator''\<rparr>"

definition invalidFlags :: Flags where
  "invalidFlags = [False, False, False, False, False, False, False, True]"

definition staleAuthenticator :: Authenticator where
  "staleAuthenticator =
     \<lparr>CRealm = ''EXAMPLE.ORG'', CName = alice, CTime = 1699999761000000000, Cusec = 0\<rparr>"

definition invalidAPReq :: APReq where
  "invalidAPReq =
     \<lparr>Ticket = sampleTicket\<lparr>DecryptedEncPart := sampleTicketPart\<lparr>Flags := invalidFlags\<rparr>\<rparr>,
      Authenticator = ''encrypted authenticator''\<rparr>"

definition laterNow :: Time where
  "laterNow = 1700000121000000000"

definition sampleEnv :: "Time \<Rightarrow> ReplayCache handler_env" where
  "sampleEnv tnow =
     \<lparr>Equal = (\<lambda>p q. p = q),
      IsFlagSet = (\<lambda>fl i. i < length fl \<and> fl ! i),
      Invalid = 7,
      GetReplayCache = (\<lambda>d rc. rc),
      IsReplay = (\<lambda>d sname a rc. CheckAndRecord tnow d (fingerprintOf sname a) rc),
      base64_DecodeString =
        (\<lambda>s. if s = ''!'' then Inl ''illegal base64 data at input byte 0'' else Inr s),
      UnmarshalNegToken =
        (\<lambda>b. if b = ''krb5'' then
               (True, NegTokenInit_value
                  \<lparr>MechTypes = [[1, 2, 840, 113554, 1, 2, 2]], MechToken = ''mech token''\<rparr>, None)
             else if b = ''ntlm'' then
               (True, NegTokenInit_value
                  \<lparr>MechTypes = [[1, 3, 6, 1, 4, 1, 311, 2, 2, 10]], MechToken = ''mech token''\<rparr>, None)
             else if b = ''none'' then
               (True, NegTokenInit_value \<lparr>MechTypes = [], MechToken = ''mech token''\<rparr>, None)
             else (False, nil_value, Some ''asn1: structure error'')),
      MechTypeOID_Krb5 = [1, 2, 840, 113554, 1, 2, 2],
      MechToken_Unmarshal = (\<lambda>b. Inr \<lparr>TokID = ''01 00'', mt_APReq = sampleAPReq\<rparr>),
      IsAPReq = (\<lambda>mt. TokID mt = ''01 00''),
      DecryptEncPart = (\<lambda>ktab tkt. Inr (tkt\<lparr>DecryptedEncPart := sampleTicketPart\<rparr>)),
      crypto_DecryptEncPart = (\<lambda>e k usage. Inr e),
      AP_REQ_AUTHENTICATOR = 11,
      Authenticator_Unmarshal = (\<lambda>b. Inr sampleAuthenticator),
      GetPrincipalNameString = (\<lambda>p. concat (NameString p)),
      KRBError_Error = (\<lambda>e. ''KRB Error'')\<rparr>"

text \<open>
  A replay cache that only records the window of every call made to it, to observe which
  window the validation passes.
\<close>

definition windowRecorder :: "(Duration list) validation_env" where
  "windowRecorder =
     \<lparr>Equal = (\<lambda>p q. p = q),
      IsFlagSet = (\<lambda>fl i. i < length fl \<and> fl ! i),
      Invalid = 7,
      GetReplayCache = (\<lambda>d rc. rc @ [d]),
      IsReplay = (\<lambda>d sname a rc. (False, rc @ [d]))\<rparr>"

definition sampleRequest :: "string \<Rightarrow> Request" where
  "sampleRequest authorization =
     \<lparr>Header = [''Authorization'' \<mapsto> [authorization]], RemoteAddr = ''192.0.2.7:40000'',
      Context_of = []\<rparr>"

definition noAuthorization :: Request where
  "noAuthorization = \<lparr>Header = Map.empty, RemoteAddr = ''192.0.2.7:40000'', Context_of = []\<rparr>"

definition newResponse :: ResponseWriter where
  "newResponse = \<lparr>w_Header = Map.empty, w_Status = None, w_Body = []\<rparr>"

definition downstream :: HandlerFunc where
  "downstream w r = Write w ''hello''"

section \<open>Lemmas on durations\<close>

lemma int64_id: "- (2 ^ 63) \<le> x \<Longrightarrow> x < 2 ^ 63 \<Longrightarrow> int64 x = x"
  by (simp add: int64_def)

lemma int64_mod: "int64 x mod 2 ^ 64 = x mod 2 ^ 64"
proof -
  have "((x + 2 ^ 63) mod 2 ^ 64 - 2 ^ 63) mod 2 ^ 64 = (x + 2 ^ 63 - 2 ^ 63) mod 2 ^ 64"
    by (rule mod_diff_left_eq)
  then show ?thesis by (simp add: int64_def)
qed

lemma int64_cong: "x mod 2 ^ 64 = y mod 2 ^ 64 \<Longrightarrow> int64 x = int64 y"
proof -
  assume h: "x mod 2 ^ 64 = y mod 2 ^ 64"
  have "(x + 2 ^ 63) mod 2 ^ 64 = (x mod 2 ^ 64 + 2 ^ 63) mod 2 ^ 64"
    by (simp add: mod_add_left_eq)
  also have "\<dots> = (y mod 2 ^ 64 + 2 ^ 63) mod 2 ^ 64" using h by simp
  also have "\<dots> = (y + 2 ^ 63) mod 2 ^ 64" by (simp add: mod_add_left_eq)
  finally show ?thesis by (simp add: int64_def)
qed

lemma Cusec_nanoseconds:
  "Duration_mul (int64 c) Microsecond = int64 (c * 1000)"
proof -
  have "(int64 c * 1000) mod 2 ^ 64 = (int64 c mod 2 ^ 64 * 1000) mod 2 ^ 64"
    by (simp add: mod_mult_left_eq)
  also have "\<dots> = (c mod 2 ^ 64 * 1000) mod 2 ^ 64" by (simp only: int64_mod)
  also have "\<dots> = (c * 1000) mod 2 ^ 64" by (simp add: mod_mult_left_eq)
  finally show ?thesis
    unfolding Duration_mul_def Microsecond_def by (rule int64_cong)
qed

lemma five_minutes: "Duration_mul (int64 5) Minute = maxSkew"
  by (simp add: Duration_mul_def int64_def Minute_def Second_def maxSkew_def)

lemma Sub_gt_maxSkew: "(Sub t u > maxSkew) = (t - u > maxSkew)"
  by (auto simp: Sub_def minDuration_def maxDuration_def maxSkew_def)

lemma skew_test_abs:
  "(Sub now ct > maxSkew \<or> Sub ct now > maxSkew) = (\<bar>now - ct\<bar> > maxSkew)"
  unfolding Sub_gt_maxSkew by (auto simp: maxSkew_def)

lemma ct_authenticatorTime:
  "Add (CTime a) (Duration_mul (int64 (Cusec a)) Microsecond) = authenticatorTime a"
  by (simp add: Add_def Cusec_nanoseconds authenticatorTime_def)

section \<open>The validation: the order of the checks\<close>

text \<open>The validation, rewritten over the five conditions.\<close>

lemma validateAPREQ_conditions:
  "validateAPREQ env now a APReq rc =
     (if principalMismatch env a APReq then
        ((False, Some (NewKRBError (SName (Ticket APReq)) (Realm (Ticket APReq))
            KRB_AP_ERR_BADMATCH ''CName in Authenticator does not match that in service ticket'')), rc)
      else if clockSkewExceeded now a then
        ((False, Some (NewKRBError (SName (Ticket APReq)) (Realm (Ticket APReq))
            KRB_AP_ERR_SKEW ''Clock skew with client too large. Greater than 5m0s seconds'')), rc)
      else if replayDetected env a APReq rc then
        ((False, Some (NewKRBError (SName (Ticket APReq)) (Realm (Ticket APReq))
            KRB_AP_ERR_REPEAT ''Replay detected'')),
         snd (IsReplay env maxSkew (SName (Ticket APReq)) a (GetReplayCache env maxSkew rc)))
      else if notYetValid env now APReq then
        ((False, Some (NewKRBError (SName (Ticket APReq)) (Realm (Ticket APReq))
            KRB_AP_ERR_TKT_NYV ''Service ticket provided is not yet valid'')),
         snd (IsReplay env maxSkew (SName (Ticket APReq)) a (GetReplayCache env maxSkew rc)))
      else if ticketExpired now APReq then
        ((False, Some (NewKRBError (SName (Ticket APReq)) (Realm (Ticket APReq))
            KRB_AP_ERR_TKT_EXPIRED ''Service ticket provided has expired'')),
         snd (IsReplay env maxSkew (SName (Ticket APReq)) a (GetReplayCache env maxSkew rc)))
      else ((True, None),
         snd (IsReplay env maxSkew (SName (Ticket APReq)) a (GetReplayCache env maxSkew rc))))"
  unfolding validateAPREQ_def Let_def five_minutes ct_authenticatorTime skew_test_abs
  unfolding Sub_gt_maxSkew principalMismatch_def clockSkewExceeded_def replayDetected_def
    notYetValid_def ticketExpired_def
  by simp

text \<open>
  Claim C1. For every input, \<open>validateAPREQ\<close> applies five checks in the order
  principal match, clock skew, replay, not yet valid, expired. The first check that fails
  decides the rejection and its error code (\<open>KRB_AP_ERR_BADMATCH\<close>,
  \<open>KRB_AP_ERR_SKEW\<close>, \<open>KRB_AP_ERR_REPEAT\<close>, \<open>KRB_AP_ERR_TKT_NYV\<close>,
  \<open>KRB_AP_ERR_TKT_EXPIRED\<close>), and the result is accepted exactly when all five pass.
\<close>

theorem validateAPREQ_checks_in_order:
  "let res = fst (validateAPREQ env now a APReq rc) in
     (principalMismatch env a APReq \<longrightarrow> rejectedWith KRB_AP_ERR_BADMATCH res) \<and>
     (\<not> principalMismatch env a APReq \<and> clockSkewExceeded now a
        \<longrightarrow> rejectedWith KRB_AP_ERR_SKEW res) \<and>
     (\<not> principalMismatch env a APReq \<and> \<not> clockSkewExceeded now a
        \<and> replayDetected env a APReq rc
        \<longrightarrow> rejectedWith KRB_AP_ERR_REPEAT res) \<and>
     (\<not> principalMismatch env a APReq \<and> \<not> clockSkewExceeded now a
        \<and> \<not> replayDetected env a APReq rc \<and> notYetValid env now APReq
        \<longrightarrow> rejectedWith KRB_AP_ERR_TKT_NYV res) \<and>
     (\<not> principalMismatch env a APReq \<and> \<not> clockSkewExceeded now a
        \<and> \<not> replayDetected env a APReq rc \<and> \<not> notYetValid env now APReq
        \<and> ticketExpired now APReq
        \<longrightarrow> rejectedWith KRB_AP_ERR_TKT_EXPIRED res) \<and>
     (accepted res \<longleftrightarrow>
        \<not> principalMismatch env a APReq \<and> \<not> clockSkewExceeded now a
        \<and> \<not> replayDetected env a APReq rc \<and> \<not> notYetValid env now APReq
        \<and> \<not> ticketExpired now APReq)"
  unfolding Let_def validateAPREQ_conditions
  by (simp add: rejectedWith_def accepted_def)

lemmas sample_defs =
  alice_def mallory_def httpService_def sampleNow_def sampleAuthenticator_def
  sampleTicketPart_def sampleTicket_def sampleAPReq_def invalidFlags_def
  staleAuthenticator_def invalidAPReq_def laterNow_def sampleEnv_def

lemmas check_defs =
  principalMismatch_def clockSkewExceeded_def replayDetected_def notYetValid_def
  ticketExpired_def authenticatorTime_def maxSkew_def int64_def
  CheckAndRecord_def evict_def fingerprintOf_def rejectedWith_def accepted_def Let_def

text \<open>The six outcomes of C1, each at a concrete input.\<close>

theorem validateAPREQ_checks_in_order_witness:
  "rejectedWith KRB_AP_ERR_BADMATCH
     (fst (validateAPREQ (sampleEnv sampleNow) sampleNow
        (sampleAuthenticator\<lparr>CName := mallory\<rparr>) sampleAPReq []))
   \<and> rejectedWith KRB_AP_ERR_SKEW
     (fst (validateAPREQ (sampleEnv laterNow) laterNow staleAuthenticator sampleAPReq []))
   \<and> rejectedWith KRB_AP_ERR_REPEAT
     (fst (validateAPREQ (sampleEnv sampleNow) sampleNow sampleAuthenticator sampleAPReq
        [\<lparr>fingerprint = fingerprintOf httpService sampleAuthenticator,
          insertion = sampleNow\<rparr>]))
   \<and> rejectedWith KRB_AP_ERR_TKT_NYV
     (fst (validateAPREQ (sampleEnv sampleNow) sampleNow sampleAuthenticator invalidAPReq []))
   \<and> rejectedWith KRB_AP_ERR_TKT_EXPIRED
     (fst (validateAPREQ (sampleEnv sampleNow) sampleNow sampleAuthenticator
        (sampleAPReq\<lparr>Ticket := sampleTicket\<lparr>DecryptedEncPart :=
           sampleTicketPart\<lparr>EndTime := 1699999000000000000\<rparr>\<rparr>\<rparr>) []))
   \<and> accepted
     (fst (validateAPREQ (sampleEnv sampleNow) sampleNow sampleAuthenticator sampleAPReq []))"
proof -
  have c1: "rejectedWith KRB_AP_ERR_BADMATCH
     (fst (validateAPREQ (sampleEnv sampleNow) sampleNow
        (sampleAuthenticator\<lparr>CName := mallory\<rparr>) sampleAPReq []))"
  proof -
    have "principalMismatch (sampleEnv sampleNow)
        (sampleAuthenticator\<lparr>CName := mallory\<rparr>) sampleAPReq"
      by (simp add: sample_defs check_defs)
    with validateAPREQ_checks_in_order
      [of "sampleEnv sampleNow" sampleNow "sampleAuthenticator\<lparr>CName := mallory\<rparr>"
          sampleAPReq "[]"]
    show ?thesis unfolding Let_def by blast
  qed
  have c2: "rejectedWith KRB_AP_ERR_SKEW
     (fst (validateAPREQ (sampleEnv laterNow) laterNow staleAuthenticator sampleAPReq []))"
  proof -
    have "\<not> principalMismatch (sampleEnv laterNow) staleAuthenticator sampleAPReq"
      and "clockSkewExceeded laterNow staleAuthenticator"
      by (simp_all add: sample_defs check_defs)
    with validateAPREQ_checks_in_order
      [of "sampleEnv laterNow" laterNow staleAuthenticator sampleAPReq "[]"]
    show ?thesis unfolding Let_def by blast
  qed
  have c3: "rejectedWith KRB_AP_ERR_REPEAT
     (fst (validateAPREQ (sampleEnv sampleNow) sampleNow sampleAuthenticator sampleAPReq
        [\<lparr>fingerprint = fingerprintOf httpService sampleAuthenticator,
          insertion = sampleNow\<rparr>]))"
  proof -
    have "\<not> principalMismatch (sampleEnv sampleNow) sampleAuthenticator sampleAPReq"
      and "\<not> clockSkewExceeded sampleNow sampleAuthenticator"
      and "replayDetected (sampleEnv sampleNow) sampleAuthenticator sampleAPReq
        [\<lparr>fingerprint = fingerprintOf httpService sampleAuthenticator,
          insertion = sampleNow\<rparr>]"
      by (simp_all add: sample_defs check_defs)
    with validateAPREQ_checks_in_order
      [of "sampleEnv sampleNow" sampleNow sampleAuthenticator sampleAPReq
          "[\<lparr>fingerprint = fingerprintOf httpService sampleAuthenticator,
             insertion = sampleNow\<rparr>]"]
    show ?thesis unfolding Let_def by blast
  qed
  have c4: "rejectedWith KRB_AP_ERR_TKT_NYV
     (fst (validateAPREQ (sampleEnv sampleNow) sampleNow sampleAuthenticator invalidAPReq []))"
  proof -
    have "\<not> principalMismatch (sampleEnv sampleNow) sampleAuthenticator invalidAPReq"
      and "\<not> clockSkewExceeded sampleNow sampleAuthenticator"
      and "\<not> replayDetected (sampleEnv sampleNow) sampleAuthenticator invalidAPReq []"
      and "notYetValid (sampleEnv sampleNow) sampleNow invalidAPReq"
      by (simp_all add: sample_defs check_defs)
    with validateAPREQ_checks_in_order
      [of "sampleEnv sampleNow" sampleNow sampleAuthenticator invalidAPReq "[]"]
    show ?thesis unfolding Let_def by blast
  qed
  have c5: "rejectedWith KRB_AP_ERR_TKT_EXPIRED
     (fst (validateAPREQ (sampleEnv sampleNow) sampleNow sampleAuthenticator
        (sampleAPReq\<lparr>Ticket := sampleTicket\<lparr>DecryptedEncPart :=
           sampleTicketPart\<lparr>EndTime := 1699999000000000000\<rparr>\<rparr>\<rparr>) []))"
  proof -
    let ?ap = "sampleAPReq\<lparr>Ticket := sampleTicket\<lparr>DecryptedEncPart :=
           sampleTicketPart\<lparr>EndTime := 1699999000000000000\<rparr>\<rparr>\<rparr>"
    have "\<not> principalMismatch (sampleEnv sampleNow) sampleAuthenticator ?ap"
      and "\<not> clockSkewExceeded sampleNow sampleAuthenticator"
      and "\<not> replayDetected (sampleEnv sampleNow) sampleAuthenticator ?ap []"
      and "\<not> notYetValid (sampleEnv sampleNow) sampleNow ?ap"
      and "ticketExpired sampleNow ?ap"
      by (simp_all add: sample_defs check_defs)
    with validateAPREQ_checks_in_order
      [of "sampleEnv sampleNow" sampleNow sampleAuthenticator ?ap "[]"]
    show ?thesis unfolding Let_def by blast
  qed
  have c6: "accepted
     (fst (validateAPREQ (sampleEnv sampleNow) sampleNow sampleAuthenticator sampleAPReq []))"
  proof -
    have "\<not> principalMismatch (sampleEnv sampleNow) sampleAuthenticator sampleAPReq"
      and "\<not> clockSkewExceeded sampleNow sampleAuthenticator"
      and "\<not> replayDetected (sampleEnv sampleNow) sampleAuthenticator sampleAPReq []"
      and "\<not> notYetValid (sampleEnv sampleNow) sampleNow sampleAPReq"
      and "\<not> ticketExpired sampleNow sampleAPReq"
      by (simp_all add: sample_defs check_defs)
    with validateAPREQ_checks_in_order
      [of "sampleEnv sampleNow" sampleNow sampleAuthenticator sampleAPReq "[]"]
    show ?thesis unfolding Let_def by blast
  qed
  from c1 c2 c3 c4 c5 c6 show ?thesis by blast
qed

section \<open>The validation: principal mismatch and clock skew\<close>

text \<open>
  Claim C4. When the client principal of the authenticator does not equal the client
  principal of the ticket, \<open>validateAPREQ\<close> rejects with \<open>KRB_AP_ERR_BADMATCH\<close>, the
  replay cache after the call is the cache before it, and the result does not depend on
  the cache operations at all: with any other \<open>GetReplayCache\<close> and \<open>IsReplay\<close> it is
  the same.
\<close>

theorem badmatch_leaves_cache_untouched:
  assumes "\<not> Equal env (CName a) (tkt_CName (DecryptedEncPart (Ticket APReq)))"
  shows "rejectedWith KRB_AP_ERR_BADMATCH (fst (validateAPREQ env now a APReq rc))
     \<and> snd (validateAPREQ env now a APReq rc) = rc
     \<and> validateAPREQ (env\<lparr>GetReplayCache := g, IsReplay := q\<rparr>) now a APReq rc
         = validateAPREQ env now a APReq rc"
  using assms by (simp add: validateAPREQ_def rejectedWith_def)

text \<open>C4 at a concrete input: mallory presents the ticket of alice.\<close>

theorem badmatch_leaves_cache_untouched_witness:
  "\<not> Equal (sampleEnv sampleNow) (CName (sampleAuthenticator\<lparr>CName := mallory\<rparr>))
       (tkt_CName (DecryptedEncPart (Ticket sampleAPReq)))
   \<and> rejectedWith KRB_AP_ERR_BADMATCH
       (fst (validateAPREQ (sampleEnv sampleNow) sampleNow
          (sampleAuthenticator\<lparr>CName := mallory\<rparr>) sampleAPReq []))
   \<and> snd (validateAPREQ (sampleEnv sampleNow) sampleNow
          (sampleAuthenticator\<lparr>CName := mallory\<rparr>) sampleAPReq []) = []"
proof -
  have h: "\<not> Equal (sampleEnv sampleNow) (CName (sampleAuthenticator\<lparr>CName := mallory\<rparr>))
       (tkt_CName (DecryptedEncPart (Ticket sampleAPReq)))"
    by (simp add: sample_defs)
  from badmatch_leaves_cache_untouched [OF h, of sampleNow "[]"] h
  show ?thesis by blast
qed

text \<open>
  Claim C5, as stated, fails: an authenticator six minutes old whose client principal
  does not match the ticket is rejected with \<open>KRB_AP_ERR_BADMATCH\<close>, not with
  \<open>KRB_AP_ERR_SKEW\<close>, since the principal check comes first.
\<close>

theorem clock_skew_counterexample:
  "5 * 60 * 1000000000 <
      \<bar>laterNow - (CTime staleAuthenticator + Cusec staleAuthenticator * 1000)\<bar>
   \<and> rejectedWith KRB_AP_ERR_BADMATCH
       (fst (validateAPREQ (sampleEnv laterNow) laterNow
          (staleAuthenticator\<lparr>CName := mallory\<rparr>) sampleAPReq []))
   \<and> \<not> rejectedWith KRB_AP_ERR_SKEW
       (fst (validateAPREQ (sampleEnv laterNow) laterNow
          (staleAuthenticator\<lparr>CName := mallory\<rparr>) sampleAPReq []))"
  by (simp add: validateAPREQ_conditions sample_defs check_defs)

text \<open>
  Claim C5, amended. When the client principals match and the microsecond offset, in
  nanoseconds, fits a 64-bit duration (every offset from 0 to 999999 does), the
  authenticator time is the timestamp plus the microsecond offset, and if it differs from
  \<open>now\<close> by more than five minutes in either direction, \<open>validateAPREQ\<close> rejects
  with \<open>KRB_AP_ERR_SKEW\<close>, whatever the other fields and the replay cache are; the cache
  is left as it was.
\<close>

theorem clock_skew_rejects:
  assumes "Equal env (CName a) (tkt_CName (DecryptedEncPart (Ticket APReq)))"
    and "- (2 ^ 63) \<le> Cusec a * 1000" and "Cusec a * 1000 < 2 ^ 63"
    and "5 * 60 * 1000000000 < \<bar>now - (CTime a + Cusec a * 1000)\<bar>"
  shows "validateAPREQ env now a APReq rc =
     ((False, Some (NewKRBError (SName (Ticket APReq)) (Realm (Ticket APReq)) KRB_AP_ERR_SKEW
         ''Clock skew with client too large. Greater than 5m0s seconds'')), rc)"
proof -
  have "int64 (Cusec a * 1000) = Cusec a * 1000"
    using assms(2,3) by (rule int64_id)
  then have "clockSkewExceeded now a"
    using assms(4) by (simp add: clockSkewExceeded_def authenticatorTime_def maxSkew_def)
  moreover have "\<not> principalMismatch env a APReq"
    using assms(1) by (simp add: principalMismatch_def)
  ultimately show ?thesis by (simp add: validateAPREQ_conditions)
qed

text \<open>C5 at a concrete input: an authenticator six minutes old.\<close>

theorem clock_skew_rejects_witness:
  "Equal (sampleEnv laterNow) (CName staleAuthenticator)
      (tkt_CName (DecryptedEncPart (Ticket sampleAPReq)))
   \<and> - (2 ^ 63) \<le> Cusec staleAuthenticator * 1000
   \<and> Cusec staleAuthenticator * 1000 < 2 ^ 63
   \<and> 5 * 60 * 1000000000 <
        \<bar>laterNow - (CTime staleAuthenticator + Cusec staleAuthenticator * 1000)\<bar>
   \<and> rejectedWith KRB_AP_ERR_SKEW
        (fst (validateAPREQ (sampleEnv laterNow) laterNow staleAuthenticator sampleAPReq []))"
proof -
  have h1: "Equal (sampleEnv laterNow) (CName staleAuthenticator)
      (tkt_CName (DecryptedEncPart (Ticket sampleAPReq)))"
    by (simp add: sample_defs)
  have h2: "- (2 ^ 63) \<le> Cusec staleAuthenticator * 1000"
    by (simp add: sample_defs)
  have h3: "Cusec staleAuthenticator * 1000 < 2 ^ 63"
    by (simp add: sample_defs)
  have h4: "5 * 60 * 1000000000 <
        \<bar>laterNow - (CTime staleAuthenticator + Cusec staleAuthenticator * 1000)\<bar>"
    by (simp add: sample_defs)
  from clock_skew_rejects [OF h1 h2 h3 h4, of "[]"] h1 h2 h3 h4
  show ?thesis by (simp add: rejectedWith_def)
qed

text \<open>
  Beyond 64 bits the offset wraps: with an offset of 9223372036854776 microseconds the
  sum of timestamp and offset is \<open>2 ^ 64\<close> nanoseconds after \<open>now\<close>, and the
  authenticator is accepted.
\<close>

lemma Cusec_wraps_example:
  "accepted (fst (validateAPREQ (sampleEnv sampleNow) sampleNow
      (sampleAuthenticator\<lparr>CTime := sampleNow + 2 ^ 63 - 192, Cusec := 9223372036854776\<rparr>)
      sampleAPReq []))
   \<and> (sampleNow + 2 ^ 63 - 192 + 9223372036854776 * 1000) - sampleNow = 2 ^ 64"
  by (simp add: validateAPREQ_conditions sample_defs check_defs)

section \<open>The validation: the skew bound and the replay window\<close>

text \<open>
  Claim C8, as stated, fails: the maximum skew is not a configuration parameter. It is the
  constant of line 108, and no choice of the collaborators, of the replay cache or of the
  input changes it: with matching principals the call rejects for clock skew exactly when
  the skew exceeds five minutes.
\<close>

theorem skew_bound_not_configurable:
  "\<not> (\<exists>(env :: ReplayCache handler_env) now a APReq rc.
         \<not> principalMismatch env a APReq
         \<and> rejectedWith KRB_AP_ERR_SKEW (fst (validateAPREQ env now a APReq rc))
             \<noteq> (5 * 60 * Second < \<bar>now - authenticatorTime a\<bar>))"
proof -
  have m: "5 * 60 * Second = maxSkew"
    by (simp add: Second_def maxSkew_def)
  show ?thesis
    unfolding m validateAPREQ_conditions
    by (simp add: rejectedWith_def clockSkewExceeded_def)
qed

text \<open>
  Claim C8, amended. The maximum skew \<open>d\<close> is the constant five minutes in every
  validation call, and the same \<open>d\<close> is the bound of the clock-skew check and the window
  handed to the replay cache: once the principals match, the call rejects with
  \<open>KRB_AP_ERR_SKEW\<close> exactly when the skew exceeds five minutes, and otherwise the cache
  is obtained and queried with the window of five minutes, the answer of the cache deciding
  the replay rejection.
\<close>

theorem skew_bound_is_replay_window:
  "Duration_mul (int64 5) Minute = 5 * 60 * Second
   \<and> (\<not> principalMismatch env a APReq \<longrightarrow>
        (rejectedWith KRB_AP_ERR_SKEW (fst (validateAPREQ env now a APReq rc))
           \<longleftrightarrow> 5 * 60 * Second < \<bar>now - authenticatorTime a\<bar>))
   \<and> (\<not> principalMismatch env a APReq \<and> \<not> 5 * 60 * Second < \<bar>now - authenticatorTime a\<bar> \<longrightarrow>
        snd (validateAPREQ env now a APReq rc)
          = snd (IsReplay env (5 * 60 * Second) (SName (Ticket APReq)) a
                   (GetReplayCache env (5 * 60 * Second) rc))
        \<and> (rejectedWith KRB_AP_ERR_REPEAT (fst (validateAPREQ env now a APReq rc))
             \<longleftrightarrow> fst (IsReplay env (5 * 60 * Second) (SName (Ticket APReq)) a
                   (GetReplayCache env (5 * 60 * Second) rc))))"
proof -
  have m: "5 * 60 * Second = maxSkew"
    by (simp add: Second_def maxSkew_def)
  show ?thesis
    unfolding m five_minutes validateAPREQ_conditions
    by (simp add: rejectedWith_def clockSkewExceeded_def replayDetected_def)
qed

text \<open>
  C8 at a concrete input, with a cache that records the windows it is given: both calls
  receive 300000000000 nanoseconds.
\<close>

theorem skew_bound_is_replay_window_witness:
  "\<not> principalMismatch windowRecorder sampleAuthenticator sampleAPReq
   \<and> \<not> 5 * 60 * Second < \<bar>sampleNow - authenticatorTime sampleAuthenticator\<bar>
   \<and> snd (validateAPREQ windowRecorder sampleNow sampleAuthenticator sampleAPReq [])
        = [300000000000, 300000000000]"
proof -
  have h1: "\<not> principalMismatch windowRecorder sampleAuthenticator sampleAPReq"
    by (simp add: principalMismatch_def windowRecorder_def sample_defs)
  have h2: "\<not> 5 * 60 * Second < \<bar>sampleNow - authenticatorTime sampleAuthenticator\<bar>"
    by (simp add: Second_def authenticatorTime_def int64_def sample_defs)
  have "snd (validateAPREQ windowRecorder sampleNow sampleAuthenticator sampleAPReq [])
          = snd (IsReplay windowRecorder (5 * 60 * Second) (SName (Ticket sampleAPReq))
                   sampleAuthenticator (GetReplayCache windowRecorder (5 * 60 * Second) []))"
    using skew_bound_is_replay_window
      [of windowRecorder sampleAuthenticator sampleAPReq sampleNow "[]"] h1 h2
    by blast
  then have "snd (validateAPREQ windowRecorder sampleNow sampleAuthenticator sampleAPReq [])
        = [300000000000, 300000000000]"
    by (simp add: windowRecorder_def Second_def)
  with h1 h2 show ?thesis by blast
qed

section \<open>The validation with the replay cache of the spec\<close>

lemma withSpecCache_simps:
  "Equal (withSpecCache tc env) = Equal env"
  "IsFlagSet (withSpecCache tc env) = IsFlagSet env"
  "Invalid (withSpecCache tc env) = Invalid env"
  "GetReplayCache (withSpecCache tc env) d rc = rc"
  "IsReplay (withSpecCache tc env) d sname a rc = CheckAndRecord tc d (fingerprintOf sname a) rc"
  by (simp_all add: withSpecCache_def)

lemma CheckAndRecord_fresh:
  "\<not> fst (CheckAndRecord tc d fp rc) \<Longrightarrow>
     snd (CheckAndRecord tc d fp rc) = evict tc d rc @ [\<lparr>fingerprint = fp, insertion = tc\<rparr>]"
  by (simp add: CheckAndRecord_def Let_def split: if_splits)

lemma CheckAndRecord_present:
  "\<lparr>fingerprint = fp, insertion = ti\<rparr> \<in> set rc \<Longrightarrow> \<not> ti < tc - d \<Longrightarrow>
     CheckAndRecord tc d fp rc = (True, evict tc d rc)"
proof -
  assume e: "\<lparr>fingerprint = fp, insertion = ti\<rparr> \<in> set rc" and t: "\<not> ti < tc - d"
  then have "\<lparr>fingerprint = fp, insertion = ti\<rparr> \<in> set (evict tc d rc)"
    by (simp add: evict_def)
  then have "list_ex (\<lambda>e. fingerprint e = fp) (evict tc d rc)"
    unfolding list_ex_iff by force
  then show ?thesis by (simp add: CheckAndRecord_def Let_def)
qed

lemma evict_keeps:
  "e \<in> set rc \<Longrightarrow> \<not> insertion e < t - d \<Longrightarrow> e \<in> set (evict t d rc)"
  by (simp add: evict_def)

lemma CheckAndRecord_keeps:
  "e \<in> set rc \<Longrightarrow> \<not> insertion e < t - d \<Longrightarrow> e \<in> set (snd (CheckAndRecord t d fp rc))"
  by (simp add: CheckAndRecord_def Let_def evict_keeps)

lemma cacheAfter_keeps:
  "e \<in> set rc \<Longrightarrow> \<forall>x \<in> set ops. \<not> insertion e < opTime x - d \<Longrightarrow> e \<in> set (cacheAfter d ops rc)"
proof (induction d ops rc rule: cacheAfter.induct)
  case (1 d rc)
  then show ?case by simp
next
  case (2 d t ops rc)
  then show ?case by (simp add: evict_keeps)
next
  case (3 d t fp ops rc)
  then show ?case by (simp add: CheckAndRecord_keeps)
qed

text \<open>
  Claim C9, amended. With the replay cache of the spec: when a presentation passes the
  principal, clock-skew and replay checks and is then rejected as not yet valid or as
  expired, its fingerprint is in the cache afterwards; and an identical presentation later,
  within the window of the first one (also after sweeps and other presentations inside
  that window) and still passing the clock-skew check at its own time, is rejected with
  \<open>KRB_AP_ERR_REPEAT\<close>.
\<close>

theorem replay_after_late_rejection:
  assumes "validateAPREQ (withSpecCache tc1 env) t1 a APReq rc = (res1, rc1)"
    and "rejectedWith KRB_AP_ERR_TKT_NYV res1 \<or> rejectedWith KRB_AP_ERR_TKT_EXPIRED res1"
    and "\<forall>x \<in> set ops. opTime x - tc1 \<le> maxSkew"
    and "tc2 - tc1 \<le> maxSkew"
    and "\<bar>t2 - authenticatorTime a\<bar> \<le> maxSkew"
  shows "list_ex (\<lambda>e. fingerprint e = fingerprintOf (SName (Ticket APReq)) a) rc1
     \<and> rejectedWith KRB_AP_ERR_REPEAT
         (fst (validateAPREQ (withSpecCache tc2 env) t2 a APReq (cacheAfter maxSkew ops rc1)))"
proof -
  let ?fp = "fingerprintOf (SName (Ticket APReq)) a"
  let ?e1 = "withSpecCache tc1 env"
  let ?e2 = "withSpecCache tc2 env"
  let ?entry = "\<lparr>fingerprint = ?fp, insertion = tc1\<rparr>"
  let ?rc2 = "cacheAfter maxSkew ops rc1"
  from assms(1,2) have pm: "\<not> principalMismatch ?e1 a APReq"
    and rd: "\<not> replayDetected ?e1 a APReq rc"
    and rc1: "rc1 = snd (IsReplay ?e1 maxSkew (SName (Ticket APReq)) a
                 (GetReplayCache ?e1 maxSkew rc))"
    by (auto simp: validateAPREQ_conditions rejectedWith_def split: if_splits)
  from rd have "\<not> fst (CheckAndRecord tc1 maxSkew ?fp rc)"
    by (simp add: replayDetected_def withSpecCache_simps)
  then have "snd (CheckAndRecord tc1 maxSkew ?fp rc) = evict tc1 maxSkew rc @ [?entry]"
    by (rule CheckAndRecord_fresh)
  with rc1 have mem: "?entry \<in> set rc1"
    by (simp add: withSpecCache_simps)
  then have recorded: "list_ex (\<lambda>e. fingerprint e = ?fp) rc1"
    unfolding list_ex_iff by force
  from assms(3) have "\<forall>x \<in> set ops. \<not> insertion ?entry < opTime x - maxSkew"
    by auto
  with mem have mem2: "?entry \<in> set ?rc2"
    by (rule cacheAfter_keeps)
  from assms(4) have "\<not> tc1 < tc2 - maxSkew" by simp
  with mem2 have "CheckAndRecord tc2 maxSkew ?fp ?rc2 = (True, evict tc2 maxSkew ?rc2)"
    by (rule CheckAndRecord_present)
  then have rd2: "replayDetected ?e2 a APReq ?rc2"
    by (simp add: replayDetected_def withSpecCache_simps)
  from pm have pm2: "\<not> principalMismatch ?e2 a APReq"
    by (simp add: principalMismatch_def withSpecCache_simps)
  from assms(5) have cs2: "\<not> clockSkewExceeded t2 a"
    by (simp add: clockSkewExceeded_def)
  from pm2 cs2 rd2
  have "rejectedWith KRB_AP_ERR_REPEAT (fst (validateAPREQ ?e2 t2 a APReq ?rc2))"
    by (simp add: validateAPREQ_conditions rejectedWith_def)
  with recorded show ?thesis by blast
qed

lemma first_presentation:
  "validateAPREQ (withSpecCache sampleNow (sampleEnv 0)) sampleNow sampleAuthenticator
      invalidAPReq [] =
     ((False, Some (NewKRBError httpService ''EXAMPLE.ORG'' KRB_AP_ERR_TKT_NYV
         ''Service ticket provided is not yet valid'')),
      [\<lparr>fingerprint = fingerprintOf httpService sampleAuthenticator, insertion = sampleNow\<rparr>])"
  by (simp add: validateAPREQ_conditions withSpecCache_def sample_defs check_defs)

text \<open>
  C9 at a concrete input: a ticket with the invalid flag, presented again two minutes
  later, after a sweep and the presentation of another fingerprint.
\<close>

theorem replay_after_late_rejection_witness:
  "rejectedWith KRB_AP_ERR_TKT_NYV
     (fst (validateAPREQ (withSpecCache sampleNow (sampleEnv 0)) sampleNow sampleAuthenticator
        invalidAPReq []))
   \<and> laterNow - sampleNow \<le> maxSkew
   \<and> \<bar>laterNow - authenticatorTime sampleAuthenticator\<bar> \<le> maxSkew
   \<and> rejectedWith KRB_AP_ERR_REPEAT
       (fst (validateAPREQ (withSpecCache laterNow (sampleEnv 0)) laterNow sampleAuthenticator
          invalidAPReq
          (cacheAfter maxSkew
             [Sweep (sampleNow + 1), Presented (sampleNow + 2) (fingerprintOf httpService staleAuthenticator)]
             [\<lparr>fingerprint = fingerprintOf httpService sampleAuthenticator,
               insertion = sampleNow\<rparr>])))"
proof -
  let ?res1 = "(False, Some (NewKRBError httpService ''EXAMPLE.ORG'' KRB_AP_ERR_TKT_NYV
         ''Service ticket provided is not yet valid''))"
  let ?ops = "[Sweep (sampleNow + 1),
     Presented (sampleNow + 2) (fingerprintOf httpService staleAuthenticator)]"
  have h2: "rejectedWith KRB_AP_ERR_TKT_NYV ?res1 \<or> rejectedWith KRB_AP_ERR_TKT_EXPIRED ?res1"
    by (simp add: rejectedWith_def)
  have h3: "\<forall>x \<in> set ?ops. opTime x - sampleNow \<le> maxSkew"
    by (simp add: maxSkew_def)
  have h4: "laterNow - sampleNow \<le> maxSkew"
    by (simp add: sample_defs maxSkew_def)
  have h5: "\<bar>laterNow - authenticatorTime sampleAuthenticator\<bar> \<le> maxSkew"
    by (simp add: sample_defs check_defs)
  have "rejectedWith KRB_AP_ERR_REPEAT
       (fst (validateAPREQ (withSpecCache laterNow (sampleEnv 0)) laterNow sampleAuthenticator
          invalidAPReq
          (cacheAfter maxSkew ?ops
             [\<lparr>fingerprint = fingerprintOf httpService sampleAuthenticator,
               insertion = sampleNow\<rparr>])))"
    using replay_after_late_rejection [OF first_presentation h2 h3 h4 h5] by blast
  moreover have "rejectedWith KRB_AP_ERR_TKT_NYV
     (fst (validateAPREQ (withSpecCache sampleNow (sampleEnv 0)) sampleNow sampleAuthenticator
        invalidAPReq []))"
    unfolding first_presentation by (simp add: rejectedWith_def)
  ultimately show ?thesis using h4 h5 by blast
qed

text \<open>
  Claim C9, as stated, fails: an authenticator four minutes old with an invalid ticket is
  rejected as not yet valid and recorded; presented again two minutes later, inside the
  window, it is rejected with \<open>KRB_AP_ERR_SKEW\<close>, not with \<open>KRB_AP_ERR_REPEAT\<close>,
  since it is six minutes old by then and the clock-skew check comes before the replay
  check.
\<close>

theorem replay_reason_counterexample:
  "rejectedWith KRB_AP_ERR_TKT_NYV
     (fst (validateAPREQ (sampleEnv sampleNow) sampleNow staleAuthenticator invalidAPReq []))
   \<and> snd (validateAPREQ (sampleEnv sampleNow) sampleNow staleAuthenticator invalidAPReq [])
       = [\<lparr>fingerprint = fingerprintOf httpService staleAuthenticator, insertion = sampleNow\<rparr>]
   \<and> laterNow - sampleNow \<le> 5 * 60 * 1000000000
   \<and> rejectedWith KRB_AP_ERR_SKEW
       (fst (validateAPREQ (sampleEnv laterNow) laterNow staleAuthenticator invalidAPReq
          [\<lparr>fingerprint = fingerprintOf httpService staleAuthenticator,
            insertion = sampleNow\<rparr>]))
   \<and> \<not> rejectedWith KRB_AP_ERR_REPEAT
       (fst (validateAPREQ (sampleEnv laterNow) laterNow staleAuthenticator invalidAPReq
          [\<lparr>fingerprint = fingerprintOf httpService staleAuthenticator,
            insertion = sampleNow\<rparr>]))"
  by (simp add: validateAPREQ_conditions sample_defs check_defs)

section \<open>The handler: lemmas and theorems\<close>

lemma Cut_Some: "Cut s sep = Some (b, a) \<Longrightarrow> s = b @ sep @ a"
proof (induction s arbitrary: b)
  case Nil
  then show ?case by (simp split: if_splits)
next
  case (Cons c cs)
  show ?case
  proof (cases "prefix sep (c # cs)")
    case True
    with Cons.prems have "b = []" and "a = drop (length sep) (c # cs)" by simp_all
    moreover from True obtain zs where "c # cs = sep @ zs" by (auto simp: prefix_def)
    ultimately show ?thesis by simp
  next
    case False
    with Cons.prems obtain b' where "Cut cs sep = Some (b', a)" and "b = c # b'"
      by (auto split: prod.splits)
    with Cons.IH show ?thesis by simp
  qed
qed

lemma SplitN_two:
  "SplitN s sep 2 = (case Cut s sep of None \<Rightarrow> [s] | Some (b, a) \<Rightarrow> [b, a])"
  by (simp add: numeral_2_eq_2 split: option.splits)

lemma Cut_Negotiate: "Cut (''Negotiate '' @ tok) '' '' = Some (''Negotiate'', tok)"
  by simp

lemma SplitN_Negotiate:
  "SplitN (''Negotiate '' @ tok) '' '' 2 = [''Negotiate'', tok]"
  by (simp add: SplitN_two)

lemma SplitN_not_Negotiate:
  assumes "\<not> prefix ''Negotiate '' h"
  shows "length (SplitN h '' '' 2) \<noteq> 2 \<or> SplitN h '' '' 2 ! 0 \<noteq> ''Negotiate''"
proof (cases "Cut h '' ''")
  case None
  then show ?thesis by (simp add: SplitN_two)
next
  case (Some p)
  obtain b a where p: "p = (b, a)" by (cases p)
  with Some have "Cut h '' '' = Some (b, a)" by simp
  then have "h = b @ '' '' @ a" by (rule Cut_Some)
  with assms have "b \<noteq> ''Negotiate''" by (auto simp: prefix_def)
  with Some p show ?thesis by (simp add: SplitN_two)
qed

lemma rejectSPNEGO_response:
  "fresh w \<Longrightarrow> fst (rejectSPNEGO w l msg) =
     \<lparr>w_Header = (w_Header w)(''WWW-Authenticate'' \<mapsto> [SPNEGO_NegTokenResp_Reject]),
      w_Status = Some 401, w_Body = ''Unauthorised.\<newline>''\<rparr>"
  by (simp add: rejectSPNEGO_def fresh_def Write_def WriteHeader_def Header_Set_def Set_value_def)

lemma rejectSPNEGO_logger:
  "snd (rejectSPNEGO w l msg) = map_option (\<lambda>lg. Println lg msg) l"
  by (simp add: rejectSPNEGO_def split: option.splits)

text \<open>The three ways a run with a Negotiate token ends.\<close>

lemma handler_cases:
  assumes "prefix ''Negotiate '' (Get (Header r) ''Authorization'')"
    and panic: "\<And>p. Q (Inl p)"
    and rej: "\<And>msg rc'. prefix (RemoteAddr r @ '' - '') msg
        \<Longrightarrow> Q (returned rc' (rejectSPNEGO w l msg))"
    and acc: "\<And>w' r' rc'.
        Q (Inr \<lparr>response = f w' r', logger = l, forwarded = [(w', r')], replayCache = rc'\<rparr>)"
  shows "Q (SPNEGOKRB5Authenticate env f ktab l now rc w r)"
proof -
  from assms(1) obtain tok where h: "Get (Header r) ''Authorization'' = ''Negotiate '' @ tok"
    by (auto simp: prefix_def)
  show ?thesis
    unfolding SPNEGOKRB5Authenticate_def h SplitN_Negotiate Let_def
    by (simp add: panic rej acc split: sum.split prod.split list.split NegToken.split)
qed

text \<open>
  Claim C3. A rejection is a run of the handler on a request with a Negotiate token that
  returns without calling the downstream handler. Whatever made it reject (the base64
  decoding, the decoding of the token, the mechanism, a decryption, or any rejection of
  \<open>validateAPREQ\<close>), on a writer to which nothing has been written yet the response is
  the same: status 401, the header \<open>WWW-Authenticate\<close> with the fixed reject token, and
  the body \<open>Unauthorised.\<close> with a newline. The reason goes to the logger only, as one
  line that starts with the remote address, when there is a logger.
\<close>

theorem rejection_response_is_uniform:
  assumes "prefix ''Negotiate '' (Get (Header r) ''Authorization'')"
    and "SPNEGOKRB5Authenticate env f ktab l now rc w r = Inr out"
    and "forwarded out = []"
    and "fresh w"
  shows "response out =
       \<lparr>w_Header = (w_Header w)(''WWW-Authenticate'' \<mapsto> [''Negotiate oQcwBaADCgEC'']),
        w_Status = Some 401, w_Body = ''Unauthorised.\<newline>''\<rparr>
     \<and> (\<exists>msg. prefix (RemoteAddr r @ '' - '') msg
            \<and> logger out = map_option (\<lambda>lg. lg @ [msg]) l)"
proof -
  let ?goal = "\<lambda>out. response out =
       \<lparr>w_Header = (w_Header w)(''WWW-Authenticate'' \<mapsto> [''Negotiate oQcwBaADCgEC'']),
        w_Status = Some 401, w_Body = ''Unauthorised.\<newline>''\<rparr>
     \<and> (\<exists>msg. prefix (RemoteAddr r @ '' - '') msg
            \<and> logger out = map_option (\<lambda>lg. lg @ [msg]) l)"
  let ?Q = "\<lambda>res. \<forall>out. res = Inr out \<longrightarrow> forwarded out = [] \<longrightarrow> ?goal out"
  have "?Q (SPNEGOKRB5Authenticate env f ktab l now rc w r)"
  proof (rule handler_cases [OF assms(1)])
    fix p :: panic
    show "?Q (Inl p)" by simp
  next
    fix msg and rc' :: 'a
    assume m: "prefix (RemoteAddr r @ '' - '') msg"
    have "response \<lparr>response = fst (rejectSPNEGO w l msg), logger = snd (rejectSPNEGO w l msg),
              forwarded = [], replayCache = rc'\<rparr> =
       \<lparr>w_Header = (w_Header w)(''WWW-Authenticate'' \<mapsto> [''Negotiate oQcwBaADCgEC'']),
        w_Status = Some 401, w_Body = ''Unauthorised.\<newline>''\<rparr>"
      using assms(4) by (simp add: rejectSPNEGO_response SPNEGO_NegTokenResp_Reject_def)
    moreover have "logger \<lparr>response = fst (rejectSPNEGO w l msg),
              logger = snd (rejectSPNEGO w l msg), forwarded = [], replayCache = rc'\<rparr>
        = map_option (\<lambda>lg. lg @ [msg]) l"
      by (simp add: rejectSPNEGO_logger Println_def)
    ultimately show "?Q (returned rc' (rejectSPNEGO w l msg))"
      using m unfolding returned_def by blast
  next
    fix w' r' and rc' :: 'a
    show "?Q (Inr \<lparr>response = f w' r', logger = l, forwarded = [(w', r')], replayCache = rc'\<rparr>)"
      by auto
  qed
  with assms(2,3) show ?thesis by blast
qed

text \<open>
  The downstream handler is called only when every step has succeeded: a failure of any
  step, if the run returns, is a rejection in the sense of C3.
\<close>

lemma forwarding_requires_every_step:
  assumes "SPNEGOKRB5Authenticate env f ktab l now rc w r = Inr out"
    and "forwarded out \<noteq> []"
  shows "\<exists>tok b nInit ms mt tkt ab a.
      Get (Header r) ''Authorization'' = ''Negotiate '' @ tok
      \<and> base64_DecodeString env tok = Inr b
      \<and> UnmarshalNegToken env b = (True, NegTokenInit_value nInit, None)
      \<and> MechTypes nInit = MechTypeOID_Krb5 env # ms
      \<and> MechToken_Unmarshal env (MechToken nInit) = Inr mt
      \<and> IsAPReq env mt
      \<and> DecryptEncPart env ktab (Ticket (mt_APReq mt)) = Inr tkt
      \<and> crypto_DecryptEncPart env (Authenticator (mt_APReq mt)) (Key (DecryptedEncPart tkt))
            (AP_REQ_AUTHENTICATOR env) = Inr ab
      \<and> Authenticator_Unmarshal env ab = Inr a
      \<and> accepted (fst (validateAPREQ env now a ((mt_APReq mt)\<lparr>Ticket := tkt\<rparr>) rc))"
proof (cases "prefix ''Negotiate '' (Get (Header r) ''Authorization'')")
  case False
  then have "length (SplitN (Get (Header r) ''Authorization'') '' '' 2) \<noteq> 2
      \<or> SplitN (Get (Header r) ''Authorization'') '' '' 2 ! 0 \<noteq> ''Negotiate''"
    by (rule SplitN_not_Negotiate)
  then have "SPNEGOKRB5Authenticate env f ktab l now rc w r =
     Inr \<lparr>response = Write (WriteHeader (Header_Set w ''WWW-Authenticate'' ''Negotiate'') 401)
                ''Unauthorised.\<newline>'',
          logger = l, forwarded = [], replayCache = rc\<rparr>"
    unfolding SPNEGOKRB5Authenticate_def Let_def by (simp only: if_True)
  with assms show ?thesis by auto
next
  case True
  then obtain tok where h: "Get (Header r) ''Authorization'' = ''Negotiate '' @ tok"
    by (auto simp: prefix_def)
  have v: "validateAPREQ env now a q rc = ((True, e), rc') \<Longrightarrow> e = None" for a q e rc'
    by (auto simp: validateAPREQ_conditions split: if_splits)
  from assms show ?thesis
    unfolding SPNEGOKRB5Authenticate_def h SplitN_Negotiate Let_def
    by (auto simp: returned_def OID_Equal_def accepted_def dest: v
        split: sum.splits prod.splits list.splits NegToken.splits if_splits)
qed


text \<open>
  Claim C6. When the token decodes to a NegTokenInit whose first mechanism is Kerberos,
  the mechanism token holds an AP-REQ, ticket and authenticator decrypt and decode, and
  \<open>validateAPREQ\<close> accepts, the handler calls the downstream handler once, with the
  writer whose header \<open>WWW-Authenticate\<close> is the fixed accept-completed token and with
  the request whose context has the client principal name under \<open>cname\<close>, the client
  realm under \<open>crealm\<close> and \<open>true\<close> under \<open>authenticated\<close>.
\<close>

theorem accepted_request_is_forwarded:
  assumes "Get (Header r) ''Authorization'' = ''Negotiate '' @ tok"
    and "base64_DecodeString env tok = Inr b"
    and "UnmarshalNegToken env b = (True, NegTokenInit_value nInit, None)"
    and "MechTypes nInit = m0 # ms" and "m0 = MechTypeOID_Krb5 env"
    and "MechToken_Unmarshal env (MechToken nInit) = Inr mt" and "IsAPReq env mt"
    and "DecryptEncPart env ktab (Ticket (mt_APReq mt)) = Inr tkt"
    and "crypto_DecryptEncPart env (Authenticator (mt_APReq mt)) (Key (DecryptedEncPart tkt))
           (AP_REQ_AUTHENTICATOR env) = Inr ab"
    and "Authenticator_Unmarshal env ab = Inr a"
    and "validateAPREQ env now a ((mt_APReq mt)\<lparr>Ticket := tkt\<rparr>) rc = ((True, err), rc')"
  shows "let w' = w\<lparr>w_Header := (w_Header w)(''WWW-Authenticate'' \<mapsto>
                     [''Negotiate oRQwEqADCgEAoQsGCSqGSIb3EgECAg==''])\<rparr>;
             r' = r\<lparr>Context_of :=
                     [(''authenticated'', BoolValue True),
                      (''crealm'', StringValue (CRealm a)),
                      (''cname'', StringValue (GetPrincipalNameString env (CName a)))]
                     @ Context_of r\<rparr>
         in SPNEGOKRB5Authenticate env f ktab l now rc w r =
              Inr \<lparr>response = f w' r', logger = l, forwarded = [(w', r')], replayCache = rc'\<rparr>
            \<and> Value (Context_of r') ''cname''
                 = Some (StringValue (GetPrincipalNameString env (CName a)))
            \<and> Value (Context_of r') ''crealm'' = Some (StringValue (CRealm a))
            \<and> Value (Context_of r') ''authenticated'' = Some (BoolValue True)"
  unfolding SPNEGOKRB5Authenticate_def Let_def assms(1) SplitN_Negotiate
  using assms(2-11)
  by (simp add: OID_Equal_def WithValue_def WithContext_def Header_Set_def Set_value_def
      Value_def SPNEGO_NegTokenResp_Krb_Accept_Completed_def)

text \<open>
  Claim C10. The handler reads the first element of \<open>MechTypes\<close> without a check of
  the length. For a request whose token decodes to a NegTokenInit: when \<open>MechTypes\<close> is
  empty the run panics at the index and produces no response, and when it is not empty the
  run returns an outcome.
\<close>

theorem empty_MechTypes_panics:
  assumes "Get (Header r) ''Authorization'' = ''Negotiate '' @ tok"
    and "base64_DecodeString env tok = Inr b"
    and "UnmarshalNegToken env b = (True, NegTokenInit_value nInit, None)"
  shows "(MechTypes nInit = [] \<longrightarrow>
            SPNEGOKRB5Authenticate env f ktab l now rc w r = Inl IndexOutOfRange)
     \<and> (MechTypes nInit \<noteq> [] \<longrightarrow>
            (\<exists>out. SPNEGOKRB5Authenticate env f ktab l now rc w r = Inr out))"
  unfolding SPNEGOKRB5Authenticate_def Let_def assms(1) SplitN_Negotiate
  using assms(2,3)
  by (simp add: returned_def split: sum.split prod.split list.split)

text \<open>Sample runs of the handler.\<close>

lemmas request_defs =
  sampleRequest_def noAuthorization_def newResponse_def downstream_def Get_def fresh_def

lemma sample_header:
  "Get (Header (sampleRequest h)) ''Authorization'' = h"
  by (simp add: request_defs)

lemma sample_run_base64:
  "SPNEGOKRB5Authenticate (sampleEnv sampleNow) downstream [] (Some []) sampleNow []
      newResponse (sampleRequest ''Negotiate !'') =
   Inr \<lparr>response = fst (rejectSPNEGO newResponse (Some []) []),
        logger = Some [''192.0.2.7:40000 - SPNEGO error in base64 decoding negotiation header: illegal base64 data at input byte 0''],
        forwarded = [], replayCache = []\<rparr>"
  unfolding SPNEGOKRB5Authenticate_def sample_header
  by (simp add: SplitN_two returned_def rejectSPNEGO_def Println_def sampleEnv_def
      sampleRequest_def)

lemma sample_run_skew:
  "SPNEGOKRB5Authenticate (sampleEnv 1700000601000000000) downstream [] (Some [])
      1700000601000000000 [] newResponse (sampleRequest ''Negotiate krb5'') =
   Inr \<lparr>response = fst (rejectSPNEGO newResponse (Some []) []),
        logger = Some [''192.0.2.7:40000 - SPNEGO Kerberos authentication failed: KRB Error''],
        forwarded = [], replayCache = []\<rparr>"
  unfolding SPNEGOKRB5Authenticate_def sample_header
  by (simp add: SplitN_two returned_def rejectSPNEGO_def Println_def OID_Equal_def
      validateAPREQ_conditions fmt_error_def sample_defs check_defs sampleRequest_def)

text \<open>
  C3 at two concrete requests: a token that is not base64, and a token whose authenticator
  is ten minutes old.
\<close>

theorem rejection_response_is_uniform_witness:
  "prefix ''Negotiate '' (Get (Header (sampleRequest ''Negotiate !'')) ''Authorization'')
   \<and> prefix ''Negotiate '' (Get (Header (sampleRequest ''Negotiate krb5'')) ''Authorization'')
   \<and> fresh newResponse
   \<and> (\<exists>out. SPNEGOKRB5Authenticate (sampleEnv sampleNow) downstream [] (Some []) sampleNow []
                newResponse (sampleRequest ''Negotiate !'') = Inr out
          \<and> forwarded out = []
          \<and> response out =
               \<lparr>w_Header = (w_Header newResponse)(''WWW-Authenticate'' \<mapsto>
                    [''Negotiate oQcwBaADCgEC'']),
                w_Status = Some 401, w_Body = ''Unauthorised.\<newline>''\<rparr>)
   \<and> (\<exists>out. SPNEGOKRB5Authenticate (sampleEnv 1700000601000000000) downstream [] (Some [])
                1700000601000000000 [] newResponse (sampleRequest ''Negotiate krb5'') = Inr out
          \<and> forwarded out = []
          \<and> response out =
               \<lparr>w_Header = (w_Header newResponse)(''WWW-Authenticate'' \<mapsto>
                    [''Negotiate oQcwBaADCgEC'']),
                w_Status = Some 401, w_Body = ''Unauthorised.\<newline>''\<rparr>)"
proof -
  have h1: "prefix ''Negotiate '' (Get (Header (sampleRequest ''Negotiate !'')) ''Authorization'')"
    by (simp add: sample_header)
  have h2: "prefix ''Negotiate ''
      (Get (Header (sampleRequest ''Negotiate krb5'')) ''Authorization'')"
    by (simp add: sample_header)
  have h3: "fresh newResponse"
    by (simp add: request_defs)
  have n: "forwarded \<lparr>response = x, logger = y, forwarded = [], replayCache = z\<rparr> = []"
    for x y and z :: ReplayCache
    by simp
  note a = rejection_response_is_uniform [OF h1 sample_run_base64 n h3]
  note b = rejection_response_is_uniform [OF h2 sample_run_skew n h3]
  from a sample_run_base64 have "\<exists>out. SPNEGOKRB5Authenticate (sampleEnv sampleNow) downstream []
        (Some []) sampleNow [] newResponse (sampleRequest ''Negotiate !'') = Inr out
          \<and> forwarded out = []
          \<and> response out =
               \<lparr>w_Header = (w_Header newResponse)(''WWW-Authenticate'' \<mapsto>
                    [''Negotiate oQcwBaADCgEC'']),
                w_Status = Some 401, w_Body = ''Unauthorised.\<newline>''\<rparr>"
    by (metis n)
  moreover from b sample_run_skew
  have "\<exists>out. SPNEGOKRB5Authenticate (sampleEnv 1700000601000000000) downstream [] (Some [])
                1700000601000000000 [] newResponse (sampleRequest ''Negotiate krb5'') = Inr out
          \<and> forwarded out = []
          \<and> response out =
               \<lparr>w_Header = (w_Header newResponse)(''WWW-Authenticate'' \<mapsto>
                    [''Negotiate oQcwBaADCgEC'']),
                w_Status = Some 401, w_Body = ''Unauthorised.\<newline>''\<rparr>"
    by (metis n)
  ultimately show ?thesis using h1 h2 h3 by blast
qed


lemma sample_validation:
  "validateAPREQ (sampleEnv sampleNow) sampleNow sampleAuthenticator
      (sampleAPReq\<lparr>Ticket := sampleTicket\<rparr>) [] =
     ((True, None),
      [\<lparr>fingerprint = fingerprintOf httpService sampleAuthenticator, insertion = sampleNow\<rparr>])"
  by (simp add: validateAPREQ_conditions sample_defs check_defs)

text \<open>C6 at a concrete request: the token of alice, presented in time.\<close>

theorem accepted_request_is_forwarded_witness:
  "\<exists>out. SPNEGOKRB5Authenticate (sampleEnv sampleNow) downstream [] (Some []) sampleNow []
            newResponse (sampleRequest ''Negotiate krb5'') = Inr out
     \<and> logger out = Some []
     \<and> replayCache out =
          [\<lparr>fingerprint = fingerprintOf httpService sampleAuthenticator, insertion = sampleNow\<rparr>]
     \<and> map (\<lambda>c. Value (Context_of (snd c)) ''cname'') (forwarded out)
          = [Some (StringValue ''alice'')]
     \<and> map (\<lambda>c. Value (Context_of (snd c)) ''crealm'') (forwarded out)
          = [Some (StringValue ''EXAMPLE.ORG'')]
     \<and> map (\<lambda>c. Value (Context_of (snd c)) ''authenticated'') (forwarded out)
          = [Some (BoolValue True)]
     \<and> map (\<lambda>c. w_Header (fst c) ''WWW-Authenticate'') (forwarded out)
          = [Some [''Negotiate oRQwEqADCgEAoQsGCSqGSIb3EgECAg=='']]
     \<and> w_Header (response out) ''WWW-Authenticate''
          = Some [''Negotiate oRQwEqADCgEAoQsGCSqGSIb3EgECAg=='']
     \<and> w_Body (response out) = ''hello''"
proof -
  let ?env = "sampleEnv sampleNow"
  let ?nInit = "\<lparr>MechTypes = [[1, 2, 840, 113554, 1, 2, 2]], MechToken = ''mech token''\<rparr>"
  let ?mt = "\<lparr>TokID = ''01 00'', mt_APReq = sampleAPReq\<rparr>"
  have h1: "Get (Header (sampleRequest ''Negotiate krb5'')) ''Authorization''
      = ''Negotiate '' @ ''krb5''"
    by (simp add: sample_header)
  have h2: "base64_DecodeString ?env ''krb5'' = Inr ''krb5''"
    by (simp add: sampleEnv_def)
  have h3: "UnmarshalNegToken ?env ''krb5'' = (True, NegTokenInit_value ?nInit, None)"
    by (simp add: sampleEnv_def)
  have h4: "MechTypes ?nInit = [1, 2, 840, 113554, 1, 2, 2] # []"
    by simp
  have h5: "[1, 2, 840, 113554, 1, 2, 2] = MechTypeOID_Krb5 ?env"
    by (simp add: sampleEnv_def)
  have h6: "MechToken_Unmarshal ?env (MechToken ?nInit) = Inr ?mt"
    by (simp add: sampleEnv_def)
  have h7: "IsAPReq ?env ?mt"
    by (simp add: sampleEnv_def)
  have h8: "DecryptEncPart ?env [] (Ticket (mt_APReq ?mt)) = Inr sampleTicket"
    by (simp add: sampleEnv_def sampleAPReq_def sampleTicket_def)
  have h9: "crypto_DecryptEncPart ?env (Authenticator (mt_APReq ?mt))
      (Key (DecryptedEncPart sampleTicket)) (AP_REQ_AUTHENTICATOR ?env)
      = Inr ''encrypted authenticator''"
    by (simp add: sampleEnv_def sampleAPReq_def)
  have h10: "Authenticator_Unmarshal ?env ''encrypted authenticator'' = Inr sampleAuthenticator"
    by (simp add: sampleEnv_def)
  have h11: "validateAPREQ ?env sampleNow sampleAuthenticator
      ((mt_APReq ?mt)\<lparr>Ticket := sampleTicket\<rparr>) [] =
     ((True, None),
      [\<lparr>fingerprint = fingerprintOf httpService sampleAuthenticator, insertion = sampleNow\<rparr>])"
    using sample_validation by simp
  note t = accepted_request_is_forwarded
    [OF h1 h2 h3 h4 h5 h6 h7 h8 h9 h10 h11, where f = downstream and l = "Some []"
      and w = newResponse]
  show ?thesis
    using t unfolding Let_def
    by (simp add: sample_defs request_defs Write_def WriteHeader_def Value_def)
qed

text \<open>C10 at two concrete requests: no mechanism, and a mechanism other than Kerberos.\<close>

theorem empty_MechTypes_panics_witness:
  "SPNEGOKRB5Authenticate (sampleEnv sampleNow) downstream [] (Some []) sampleNow []
      newResponse (sampleRequest ''Negotiate none'') = Inl IndexOutOfRange
   \<and> (\<exists>out. SPNEGOKRB5Authenticate (sampleEnv sampleNow) downstream [] (Some []) sampleNow []
      newResponse (sampleRequest ''Negotiate ntlm'') = Inr out)"
proof -
  let ?env = "sampleEnv sampleNow"
  let ?none = "\<lparr>MechTypes = [], MechToken = ''mech token''\<rparr>"
  let ?ntlm = "\<lparr>MechTypes = [[1, 3, 6, 1, 4, 1, 311, 2, 2, 10]], MechToken = ''mech token''\<rparr>"
  have a1: "Get (Header (sampleRequest ''Negotiate none'')) ''Authorization''
      = ''Negotiate '' @ ''none''"
    by (simp add: sample_header)
  have a2: "base64_DecodeString ?env ''none'' = Inr ''none''"
    by (simp add: sampleEnv_def)
  have a3: "UnmarshalNegToken ?env ''none'' = (True, NegTokenInit_value ?none, None)"
    by (simp add: sampleEnv_def)
  have b1: "Get (Header (sampleRequest ''Negotiate ntlm'')) ''Authorization''
      = ''Negotiate '' @ ''ntlm''"
    by (simp add: sample_header)
  have b2: "base64_DecodeString ?env ''ntlm'' = Inr ''ntlm''"
    by (simp add: sampleEnv_def)
  have b3: "UnmarshalNegToken ?env ''ntlm'' = (True, NegTokenInit_value ?ntlm, None)"
    by (simp add: sampleEnv_def)
  have "SPNEGOKRB5Authenticate ?env downstream [] (Some []) sampleNow []
      newResponse (sampleRequest ''Negotiate none'') = Inl IndexOutOfRange"
    using empty_MechTypes_panics [OF a1 a2 a3, where f = downstream and ktab = "[]"
        and l = "Some []" and now = sampleNow and rc = "[]" and w = newResponse]
    by simp
  moreover have "\<exists>out. SPNEGOKRB5Authenticate ?env downstream [] (Some []) sampleNow []
      newResponse (sampleRequest ''Negotiate ntlm'') = Inr out"
    using empty_MechTypes_panics [OF b1 b2 b3, where f = downstream and ktab = "[]"
        and l = "Some []" and now = sampleNow and rc = "[]" and w = newResponse]
    by simp
  ultimately show ?thesis by blast
qed

end
